theory Spec2Isabelle
  imports Main
begin

section \<open>The host language: values, faults and effects\<close>

text \<open>
  The library is TypeScript; its types are erased at run time, and the code decides what to
  do by run-time tests (\<^verbatim>\<open>value instanceof Promise\<close>, \<^verbatim>\<open>value instanceof Error\<close>,
  \<^verbatim>\<open>tag ?? DEFAULT\<close>). The model therefore works on one universe of run-time values.

  A call of a caller-supplied function either returns a value or throws one, and it may
  change the world around it; the world is a state of an arbitrary type \<open>'s\<close>, passed in
  and handed back.
\<close>

datatype ('a, 'f) outcome = Returns 'a | Throws 'f

text \<open>
  A promise is what awaiting it does: from the world it is awaited in, it is fulfilled
  with a value, rejected with a reason, or never settles, and the callbacks that ran on the
  way have changed the world.
\<close>

datatype 'a settlement = Fulfilled 'a | Rejected 'a | Unsettled

datatype 's jsv =
    JUndefined
  | JNull
  | JBool bool
  | JNum int
  | JStr string
  | JArray "'s jsv list"
  | JObject "(string \<times> 's jsv) list"
  | JError string string
  | JPromise "'s \<Rightarrow> 's jsv settlement \<times> 's"

text \<open>
  \<open>JError c m\<close> is an instance of the platform's \<^verbatim>\<open>Error\<close> or of a subclass of it:
  \<open>c\<close> is the class name (\<^verbatim>\<open>new CustomError("boom")\<close> is \<open>JError ''CustomError'' ''boom''\<close>),
  \<open>m\<close> the message. \<open>JObject\<close> is any other object, by its fields.
\<close>

type_synonym 's promise = "'s \<Rightarrow> 's jsv settlement \<times> 's"
type_synonym 's jsfun = "'s jsv \<Rightarrow> 's \<Rightarrow> ('s jsv, 's jsv) outcome \<times> 's"
type_synonym 's thunk = "'s \<Rightarrow> ('s jsv, 's jsv) outcome \<times> 's"
type_synonym 's guard = "'s jsv \<Rightarrow> 's \<Rightarrow> (bool, 's jsv) outcome \<times> 's"

fun instanceof_Promise :: "'s jsv \<Rightarrow> bool" where
  "instanceof_Promise (JPromise p) = True"
| "instanceof_Promise v = False"

fun instanceof_Error :: "'s jsv \<Rightarrow> bool" where
  "instanceof_Error (JError c m) = True"
| "instanceof_Error v = False"

text \<open>
  \<^verbatim>\<open>await v\<close>: a promise is run to its settlement; any other value is there already.
\<close>

fun await :: "'s jsv \<Rightarrow> 's promise" where
  "await (JPromise p) s = p s"
| "await v s = (Fulfilled v, s)"

text \<open>
  \<^verbatim>\<open>p.then(cb)\<close>: the new promise runs \<open>cb\<close> on the value \<open>p\<close> is fulfilled with, and is
  resolved with what \<open>cb\<close> returns (a returned promise is adopted), or rejected with what
  \<open>cb\<close> throws. When \<open>p\<close> is rejected or never settles, \<open>cb\<close> does not run.
\<close>

definition promise_then :: "'s promise \<Rightarrow> 's jsfun \<Rightarrow> 's promise" where
  "promise_then p cb s =
     (case p s of
        (Fulfilled v, s1) \<Rightarrow>
          (case cb v s1 of
             (Returns r, s2) \<Rightarrow> await r s2
           | (Throws x, s2) \<Rightarrow> (Rejected x, s2))
      | (Rejected x, s1) \<Rightarrow> (Rejected x, s1)
      | (Unsettled, s1) \<Rightarrow> (Unsettled, s1))"

text \<open>\<^verbatim>\<open>a ?? b\<close>: \<open>b\<close> when \<open>a\<close> is undefined, \<open>a\<close> otherwise (the empty string included).\<close>

definition nullish :: "'a option \<Rightarrow> 'a \<Rightarrow> 'a" where
  "nullish a b = (case a of None \<Rightarrow> b | Some x \<Rightarrow> x)"

text \<open>
  The truthiness of an optional string, as \<^verbatim>\<open>cond ? a : b\<close> tests it: undefined and the
  empty string are falsy.
\<close>

definition truthy :: "string option \<Rightarrow> bool" where
  "truthy a = (case a of None \<Rightarrow> False | Some x \<Rightarrow> x \<noteq> [])"

subsection \<open>Recording calls\<close>

text \<open>
  To count how often the library calls a function it was given, the function is wrapped
  in a recorder, the side-channel counter of the test suite: the world becomes a pair of
  the list of calls made so far and the world \<open>'u\<close> the function itself works on, and
  each call appends the function's label. The wrapped function cannot see the list.
\<close>

datatype callee = OnOk | OnErr | TryFn | CatchFn | FinallyFn | IsError

definition probe :: "callee \<Rightarrow> ('a \<Rightarrow> 'u \<Rightarrow> 'r \<times> 'u) \<Rightarrow> 'a \<Rightarrow> callee list \<times> 'u \<Rightarrow> 'r \<times> callee list \<times> 'u" where
  "probe c h a = (\<lambda>(tr, u). case h a u of (r, u') \<Rightarrow> (r, (tr @ [c], u')))"

definition probe0 :: "callee \<Rightarrow> ('u \<Rightarrow> 'r \<times> 'u) \<Rightarrow> callee list \<times> 'u \<Rightarrow> 'r \<times> callee list \<times> 'u" where
  "probe0 c h = (\<lambda>(tr, u). case h u of (r, u') \<Rightarrow> (r, (tr @ [c], u')))"

definition calls :: "callee \<Rightarrow> callee list \<times> 'u \<Rightarrow> nat" where
  "calls c w = count_list (fst w) c"

section \<open>Result instances\<close>

text \<open>
  \<^verbatim>\<open>ok(value, tag)\<close> and \<^verbatim>\<open>err(error, tag)\<close> return an object made of the properties
  \<^verbatim>\<open>tag\<close> and \<^verbatim>\<open>value\<close> (or \<^verbatim>\<open>error\<close>) and of five methods that close over the
  constructor's argument. The record has one field for each; a property the variant does
  not have is \<open>None\<close>. The methods \<^verbatim>\<open>isOk\<close>, \<^verbatim>\<open>isErr\<close>, \<^verbatim>\<open>pair\<close> and \<^verbatim>\<open>unwrap\<close>
  take no argument and call nothing they were given, so their fields hold what they return;
  \<^verbatim>\<open>match\<close> calls a handler, so its field is a function of the two handlers and the
  world.
\<close>

record 's Result =
  tag :: string
  "value" :: "'s jsv option"
  error :: "'s jsv option"
  isOk :: bool
  isErr :: bool
  match :: "'s jsfun \<Rightarrow> 's jsfun \<Rightarrow> 's \<Rightarrow> ('s jsv, 's jsv) outcome \<times> 's"
  pair :: "'s jsv"
  unwrap :: "'s jsv"

text \<open>
  Modelled from the spec: the module \<^verbatim>\<open>@/lib/constants\<close> that exports
  \<^verbatim>\<open>DEFAULT_TAG_OK\<close> and \<^verbatim>\<open>DEFAULT_TAG_ERROR\<close> is not among the sources. The spec gives
  the default tags as \<^verbatim>\<open>"Ok"\<close> and \<^verbatim>\<open>"Err"\<close>, and so do the types \<^verbatim>\<open>Ok\<close> and \<^verbatim>\<open>Err\<close>
  of \<^verbatim>\<open>types.public.ts\<close>.
\<close>

definition DEFAULT_TAG_OK :: string where
  "DEFAULT_TAG_OK = ''Ok''"

definition DEFAULT_TAG_ERROR :: string where
  "DEFAULT_TAG_ERROR = ''Err''"

subsection \<open>\<^verbatim>\<open>ok\<close> (\<^verbatim>\<open>return/ok.ts\<close>)\<close>

text \<open>
  The \<^verbatim>\<open>match\<close> of an Ok instance declares one parameter only: a second handler passed
  to it is dropped.
\<close>

definition ok_match :: "'s jsv \<Rightarrow> 's jsfun \<Rightarrow> 's \<Rightarrow> ('s jsv, 's jsv) outcome \<times> 's" where
  "ok_match v onOk s =
     (case v of
        JPromise p \<Rightarrow> (Returns (JPromise (promise_then p (\<lambda>x. onOk x))), s)
      | _ \<Rightarrow> onOk v s)"

definition ok_pair :: "'s jsv \<Rightarrow> 's jsv" where
  "ok_pair v =
     (case v of
        JPromise p \<Rightarrow> JPromise (promise_then p (\<lambda>x s. (Returns (JArray [x, JUndefined]), s)))
      | _ \<Rightarrow> JArray [v, JUndefined])"

definition ok :: "'s jsv \<Rightarrow> string option \<Rightarrow> 's Result" where
  "ok v t =
     \<lparr> tag = nullish t DEFAULT_TAG_OK,
       value = Some v,
       error = None,
       isOk = True,
       isErr = False,
       match = (\<lambda>onOk onErr. ok_match v onOk),
       pair = ok_pair v,
       unwrap = v \<rparr>"

subsection \<open>\<^verbatim>\<open>err\<close> (\<^verbatim>\<open>return/err.ts\<close>)\<close>

text \<open>
  The source of \<^verbatim>\<open>err\<close> is the second half of \<^verbatim>\<open>tests/usecase.test.ts\<close> as the
  sources come. Its \<^verbatim>\<open>match\<close> declares both parameters and calls the second.
\<close>

definition err_match :: "'s jsv \<Rightarrow> 's jsfun \<Rightarrow> 's jsfun \<Rightarrow> 's \<Rightarrow> ('s jsv, 's jsv) outcome \<times> 's" where
  "err_match e onOk onErr s =
     (case e of
        JPromise p \<Rightarrow> (Returns (JPromise (promise_then p (\<lambda>x. onErr x))), s)
      | _ \<Rightarrow> onErr e s)"

definition err_pair :: "'s jsv \<Rightarrow> 's jsv" where
  "err_pair e =
     (case e of
        JPromise p \<Rightarrow> JPromise (promise_then p (\<lambda>x s. (Returns (JArray [JUndefined, x]), s)))
      | _ \<Rightarrow> JArray [JUndefined, e])"

definition err :: "'s jsv \<Rightarrow> string option \<Rightarrow> 's Result" where
  "err e t =
     \<lparr> tag = nullish t DEFAULT_TAG_ERROR,
       value = None,
       error = Some e,
       isOk = False,
       isErr = True,
       match = (\<lambda>onOk onErr. err_match e onOk onErr),
       pair = err_pair e,
       unwrap = e \<rparr>"

subsection \<open>Awaiting a call\<close>

text \<open>
  \<^verbatim>\<open>await r.match(f, g)\<close>: the call is made; a fault it throws is the fault of the whole
  expression, and a value it returns is awaited.
\<close>

fun awaited :: "('s jsv, 's jsv) outcome \<times> 's \<Rightarrow> 's jsv settlement \<times> 's" where
  "awaited (Returns r, s) = await r s"
| "awaited (Throws x, s) = (Rejected x, s)"

section \<open>\<^verbatim>\<open>tcf\<close> (\<^verbatim>\<open>return/tcf.ts\<close>)\<close>

text \<open>
  The argument object, by the names the implementation binds its properties to.
\<close>

record 's tcf_args =
  tryFn :: "'s thunk"
  catchFn :: "'s jsfun"
  finallyFn :: "'s thunk option"
  tagError :: "string option"
  tagOk :: "string option"

text \<open>
  The body is one \<^verbatim>\<open>try { ... } catch (error) { ... } finally { ... }\<close> statement. Its
  three blocks are modelled one by one, then the statement: the \<^verbatim>\<open>catch\<close> block runs when
  the \<^verbatim>\<open>try\<close> block throws, the \<^verbatim>\<open>finally\<close> block runs after whichever of them ended
  the statement, and a fault thrown by the \<^verbatim>\<open>finally\<close> block replaces the pending return
  or fault.
\<close>

definition try_block :: "'s tcf_args \<Rightarrow> 's \<Rightarrow> ('s Result, 's jsv) outcome \<times> 's" where
  "try_block a s =
     (if tcf_args.tagOk a = None then
        (case tryFn a s of
           (Returns v, s1) \<Rightarrow> (Returns (ok v None), s1)
         | (Throws x, s1) \<Rightarrow> (Throws x, s1))
      else
        (case tryFn a s of
           (Returns v, s1) \<Rightarrow> (Returns (ok v (tcf_args.tagOk a)), s1)
         | (Throws x, s1) \<Rightarrow> (Throws x, s1)))"

definition catch_block :: "'s tcf_args \<Rightarrow> 's jsv \<Rightarrow> 's \<Rightarrow> ('s Result, 's jsv) outcome \<times> 's" where
  "catch_block a x s =
     (if tcf_args.tagError a = None then
        (case catchFn a x s of
           (Returns e, s1) \<Rightarrow> (Returns (err e None), s1)
         | (Throws y, s1) \<Rightarrow> (Throws y, s1))
      else
        (case catchFn a x s of
           (Returns e, s1) \<Rightarrow> (Returns (err e (tcf_args.tagError a)), s1)
         | (Throws y, s1) \<Rightarrow> (Throws y, s1)))"

definition finally_block :: "'s tcf_args \<Rightarrow> 's \<Rightarrow> (unit, 's jsv) outcome \<times> 's" where
  "finally_block a s =
     (case finallyFn a of
        None \<Rightarrow> (Returns (), s)
      | Some f \<Rightarrow>
          (case f s of
             (Returns r, s1) \<Rightarrow> (Returns (), s1)
           | (Throws y, s1) \<Rightarrow> (Throws y, s1)))"

definition tcf :: "'s tcf_args \<Rightarrow> 's \<Rightarrow> ('s Result, 's jsv) outcome \<times> 's" where
  "tcf a s =
     (case (case try_block a s of
              (Returns r, s1) \<Rightarrow> (Returns r, s1)
            | (Throws x, s1) \<Rightarrow> catch_block a x s1) of
        (res, s2) \<Rightarrow>
          (case finally_block a s2 of
             (Returns u, s3) \<Rightarrow> (res, s3)
           | (Throws y, s3) \<Rightarrow> (Throws y, s3)))"

section \<open>The discriminator \<^verbatim>\<open>result\<close>\<close>

record 's ResultConfig =
  isError :: "'s guard option"
  tagError :: "string option"
  tagOk :: "string option"

text \<open>\<^verbatim>\<open>config?.field\<close>: undefined when there is no config.\<close>

definition optional_chain :: "'c option \<Rightarrow> ('c \<Rightarrow> 'a option) \<Rightarrow> 'a option" where
  "optional_chain config field = (case config of None \<Rightarrow> None | Some c \<Rightarrow> field c)"

text \<open>
  Both files that define \<^verbatim>\<open>result\<close> define the same default predicate,
  \<^verbatim>\<open>value instanceof Error\<close>. It throws nothing and changes nothing.
\<close>

definition defaultIsError :: "'s guard" where
  "defaultIsError v s = (Returns (instanceof_Error v), s)"

subsection \<open>\<^verbatim>\<open>result\<close> of \<^verbatim>\<open>return/result.ts\<close>\<close>

text \<open>
  The tag of the config is tested for truthiness (\<^verbatim>\<open>config?.tagError ? ... : ...\<close>): with
  no tag, and with the empty string as tag, the constructor is called without a tag.
\<close>

definition processValue :: "'s ResultConfig option \<Rightarrow> 's guard \<Rightarrow> 's jsv \<Rightarrow> 's \<Rightarrow> ('s Result, 's jsv) outcome \<times> 's" where
  "processValue config isError' v s =
     (case isError' v s of
        (Throws x, s1) \<Rightarrow> (Throws x, s1)
      | (Returns b, s1) \<Rightarrow>
          (if b then
             (if truthy (optional_chain config ResultConfig.tagError)
              then (Returns (err v (optional_chain config ResultConfig.tagError)), s1)
              else (Returns (err v None), s1))
           else
             (if truthy (optional_chain config ResultConfig.tagOk)
              then (Returns (ok v (optional_chain config ResultConfig.tagOk)), s1)
              else (Returns (ok v None), s1))))"

definition result :: "'s jsv \<Rightarrow> 's ResultConfig option \<Rightarrow> 's \<Rightarrow> ('s Result, 's jsv) outcome \<times> 's" where
  "result v config s =
     processValue config (nullish (optional_chain config isError) defaultIsError) v s"

subsection \<open>\<^verbatim>\<open>result\<close> as \<^verbatim>\<open>return/tcf.ts\<close> defines it\<close>

text \<open>
  The second definition, at the end of \<^verbatim>\<open>return/tcf.ts\<close>, passes a tag to the
  constructor in every case, \<^verbatim>\<open>config?.tagError ?? DEFAULT_TAG_ERROR\<close>.
\<close>

definition result_tcf :: "'s jsv \<Rightarrow> 's ResultConfig option \<Rightarrow> 's \<Rightarrow> ('s Result, 's jsv) outcome \<times> 's" where
  "result_tcf v config s =
     (case nullish (optional_chain config isError) defaultIsError v s of
        (Throws x, s1) \<Rightarrow> (Throws x, s1)
      | (Returns b, s1) \<Rightarrow>
          (if b then
             (Returns (err v (Some (nullish (optional_chain config ResultConfig.tagError) DEFAULT_TAG_ERROR))), s1)
           else
             (Returns (ok v (Some (nullish (optional_chain config ResultConfig.tagOk) DEFAULT_TAG_OK))), s1)))"

section \<open>Sample callers\<close>

text \<open>
  Small functions and arguments a caller may pass, for the concrete instances of the
  theorems below. \<open>returning v\<close> is \<^verbatim>\<open>() => v\<close>, \<open>throwing x\<close> is
  \<^verbatim>\<open>() => { throw x }\<close>, \<open>counting\<close> is \<^verbatim>\<open>v => { n++; return v }\<close> on a world that is the
  counter \<open>n\<close>, \<open>failing\<close> is \<^verbatim>\<open>v => { throw v }\<close>, \<open>wrap_fault\<close> is
  \<^verbatim>\<open>e => ({ cause: e })\<close>. \<open>resolved v\<close> is \<^verbatim>\<open>Promise.resolve(v)\<close>: a promise is
  returned as it is, any other value in a promise fulfilled with it. \<open>rejecting x\<close> is
  \<^verbatim>\<open>Promise.reject(x)\<close>, and \<open>never_settling\<close> is \<^verbatim>\<open>new Promise(() => {})\<close>.
\<close>

definition returning :: "'a \<Rightarrow> 's \<Rightarrow> ('a, 'f) outcome \<times> 's" where
  "returning v s = (Returns v, s)"

definition throwing :: "'f \<Rightarrow> 's \<Rightarrow> ('a, 'f) outcome \<times> 's" where
  "throwing x s = (Throws x, s)"

definition counting :: "'a \<Rightarrow> nat \<Rightarrow> ('a, 'f) outcome \<times> nat" where
  "counting v n = (Returns v, Suc n)"

definition failing :: "'a \<Rightarrow> 's \<Rightarrow> ('r, 'a) outcome \<times> 's" where
  "failing v s = (Throws v, s)"

definition wrap_fault :: "'s jsfun" where
  "wrap_fault x s = (Returns (JObject [(''cause'', x)]), s)"

definition resolved :: "'s jsv \<Rightarrow> 's jsv" where
  "resolved v = (if instanceof_Promise v then v else JPromise (\<lambda>s. (Fulfilled v, s)))"

definition rejecting :: "'s jsv \<Rightarrow> 's jsv" where
  "rejecting x = JPromise (\<lambda>s. (Rejected x, s))"

definition never_settling :: "'s jsv" where
  "never_settling = JPromise (\<lambda>s. (Unsettled, s))"

text \<open>
  \<^verbatim>\<open>tcf({ try: () => "x", catch: e => ({ cause: e }), finally: () => { throw "cleanup" } })\<close>
\<close>

definition cleanup_fails :: "unit tcf_args" where
  "cleanup_fails =
     \<lparr> tryFn = returning (JStr ''x''),
       catchFn = wrap_fault,
       finallyFn = Some (throwing (JStr ''cleanup'')),
       tcf_args.tagError = None,
       tcf_args.tagOk = None \<rparr>"

text \<open>
  \<^verbatim>\<open>tcf({ try: () => { throw new CustomError("boom") }, catch: e => ({ cause: e }),
  finally: () => { n++ }, tagError: "FAILED" })\<close> and the same with \<^verbatim>\<open>try: () => "x"\<close>.
\<close>

definition try_throws :: "nat tcf_args" where
  "try_throws =
     \<lparr> tryFn = throwing (JError ''CustomError'' ''boom''),
       catchFn = wrap_fault,
       finallyFn = Some (counting JUndefined),
       tcf_args.tagError = Some ''FAILED'',
       tcf_args.tagOk = None \<rparr>"

definition try_returns :: "nat tcf_args" where
  "try_returns = try_throws \<lparr> tryFn := returning (JStr ''x'') \<rparr>"

text \<open>The configs \<^verbatim>\<open>{ tagOk: "" }\<close> and \<^verbatim>\<open>{ tagError: "" }\<close>.\<close>

definition empty_tagOk :: "unit ResultConfig" where
  "empty_tagOk = \<lparr> isError = None, tagError = None, tagOk = Some [] \<rparr>"

definition empty_tagError :: "unit ResultConfig" where
  "empty_tagError = \<lparr> isError = None, tagError = Some [], tagOk = None \<rparr>"

text \<open>The config \<^verbatim>\<open>{ isError: v => { throw "not total" }, tagOk: "VALID" }\<close>.\<close>

definition partial_predicate :: "unit ResultConfig" where
  "partial_predicate =
     \<lparr> isError = Some (\<lambda>v. throwing (JStr ''not total'')), tagError = None, tagOk = Some ''VALID'' \<rparr>"

text \<open>
  A call of \<^verbatim>\<open>tcf\<close> whose three functions are recorded, and a config whose predicate is.
\<close>

definition recorded_tcf ::
  "('u \<Rightarrow> ((callee list \<times> 'u) jsv, (callee list \<times> 'u) jsv) outcome \<times> 'u) \<Rightarrow>
   ((callee list \<times> 'u) jsv \<Rightarrow> 'u \<Rightarrow> ((callee list \<times> 'u) jsv, (callee list \<times> 'u) jsv) outcome \<times> 'u) \<Rightarrow>
   ('u \<Rightarrow> ((callee list \<times> 'u) jsv, (callee list \<times> 'u) jsv) outcome \<times> 'u) \<Rightarrow>
   string option \<Rightarrow> string option \<Rightarrow> (callee list \<times> 'u) tcf_args" where
  "recorded_tcf f c fin te tk =
     \<lparr> tryFn = probe0 TryFn f,
       catchFn = probe CatchFn c,
       finallyFn = Some (probe0 FinallyFn fin),
       tcf_args.tagError = te,
       tcf_args.tagOk = tk \<rparr>"

definition recorded_config ::
  "((callee list \<times> 'u) jsv \<Rightarrow> 'u \<Rightarrow> (bool, (callee list \<times> 'u) jsv) outcome \<times> 'u) \<Rightarrow>
   string option \<Rightarrow> string option \<Rightarrow> (callee list \<times> 'u) ResultConfig" where
  "recorded_config p te tk = \<lparr> isError = Some (probe IsError p), tagError = te, tagOk = tk \<rparr>"

section \<open>Properties of the instances\<close>

subsection \<open>The two branches of each method\<close>

lemma ok_match_plain: "\<not> instanceof_Promise v \<Longrightarrow> ok_match v f s = f v s"
  by (cases v) (simp_all add: ok_match_def)

lemma err_match_plain: "\<not> instanceof_Promise e \<Longrightarrow> err_match e f g s = g e s"
  by (cases e) (simp_all add: err_match_def)

lemma ok_match_pending: "ok_match (JPromise p) f s = (Returns (JPromise (promise_then p f)), s)"
  by (simp add: ok_match_def)

lemma err_match_pending: "err_match (JPromise p) f g s = (Returns (JPromise (promise_then p g)), s)"
  by (simp add: err_match_def)

lemma ok_pair_plain: "\<not> instanceof_Promise v \<Longrightarrow> ok_pair v = JArray [v, JUndefined]"
  by (cases v) (simp_all add: ok_pair_def)

lemma err_pair_plain: "\<not> instanceof_Promise e \<Longrightarrow> err_pair e = JArray [JUndefined, e]"
  by (cases e) (simp_all add: err_pair_def)

lemma ok_pair_pending:
  "ok_pair (JPromise p) = JPromise (promise_then p (\<lambda>x s. (Returns (JArray [x, JUndefined]), s)))"
  by (simp add: ok_pair_def)

lemma err_pair_pending:
  "err_pair (JPromise p) = JPromise (promise_then p (\<lambda>x s. (Returns (JArray [JUndefined, x]), s)))"
  by (simp add: err_pair_def)

lemma await_plain: "\<not> instanceof_Promise v \<Longrightarrow> await v s = (Fulfilled v, s)"
  by (cases v) simp_all

text \<open>
  Once the promise is fulfilled, the promise made by \<^verbatim>\<open>then\<close> settles as one awaited call
  of the callback does.
\<close>

lemma promise_then_fulfilled:
  "p s = (Fulfilled x, s1) \<Longrightarrow> promise_then p f s = awaited (f x s1)"
  by (cases "f x s1" rule: awaited.cases) (simp_all add: promise_then_def)

lemma awaited_ok_match:
  assumes "await v s = (Fulfilled x, s1)"
  shows "awaited (ok_match v f s) = awaited (f x s1)"
proof (cases "instanceof_Promise v")
  case True
  then obtain p where v: "v = JPromise p" by (cases v) simp_all
  with assms have "p s = (Fulfilled x, s1)" by simp
  then show ?thesis by (simp add: v ok_match_pending promise_then_fulfilled)
next
  case False
  with assms show ?thesis by (simp add: ok_match_plain await_plain)
qed

lemma awaited_err_match:
  assumes "await e s = (Fulfilled x, s1)"
  shows "awaited (err_match e f g s) = awaited (g x s1)"
proof (cases "instanceof_Promise e")
  case True
  then obtain p where e: "e = JPromise p" by (cases e) simp_all
  with assms have "p s = (Fulfilled x, s1)" by simp
  then show ?thesis by (simp add: e err_match_pending promise_then_fulfilled)
next
  case False
  with assms show ?thesis by (simp add: err_match_plain await_plain)
qed

subsection \<open>\<^verbatim>\<open>unwrap\<close>\<close>

text \<open>
  C7. \<^verbatim>\<open>ok(v).unwrap()\<close> is \<open>v\<close> and \<^verbatim>\<open>err(e).unwrap()\<close> is \<open>e\<close>, whatever the tag: the
  payload comes back as it went in, without a test on it and without resolving it. A
  payload that is a pending computation comes back as the same promise.
\<close>

theorem unwrap_identity:
  "unwrap (ok v t) = v \<and> unwrap (err e t) = e \<and>
   unwrap (ok (JPromise p) t) = JPromise p \<and> unwrap (err (JPromise p) t) = JPromise p"
  by (simp add: ok_def err_def)

subsection \<open>Tags\<close>

text \<open>
  C8. Without a tag, \<^verbatim>\<open>ok(v)\<close> has the tag \<^verbatim>\<open>"Ok"\<close> and \<^verbatim>\<open>err(e)\<close> the tag \<^verbatim>\<open>"Err"\<close>; a
  tag the caller supplies becomes the tag. The instance built with a tag is the instance
  built with any other tag, or with none, with the field \<^verbatim>\<open>tag\<close> replaced and nothing
  else: for any two choices of tag the fields \<^verbatim>\<open>value\<close> and \<^verbatim>\<open>error\<close> and the methods
  \<^verbatim>\<open>match\<close>, \<^verbatim>\<open>pair\<close> and \<^verbatim>\<open>unwrap\<close> are the same.
\<close>

theorem tag_overlay:
  "tag (ok v None) = ''Ok'' \<and> tag (err e None) = ''Err'' \<and>
   tag (ok v (Some t)) = t \<and> tag (err e (Some t)) = t \<and>
   ok v (Some t) = (ok v a)\<lparr>tag := t\<rparr> \<and>
   err e (Some t) = (err e a)\<lparr>tag := t\<rparr> \<and>
   value (ok v a) = value (ok v b) \<and> error (ok v a) = error (ok v b) \<and>
   value (err e a) = value (err e b) \<and> error (err e a) = error (err e b) \<and>
   match (ok v a) = match (ok v b) \<and> match (err e a) = match (err e b) \<and>
   pair (ok v a) = pair (ok v b) \<and> pair (err e a) = pair (err e b) \<and>
   unwrap (ok v a) = unwrap (ok v b) \<and> unwrap (err e a) = unwrap (err e b)"
  by (simp add: ok_def err_def nullish_def DEFAULT_TAG_OK_def DEFAULT_TAG_ERROR_def)

subsection \<open>\<^verbatim>\<open>match\<close>\<close>

text \<open>
  What \<^verbatim>\<open>match\<close>, awaited, does on any payload: where the payload resolves to \<open>x\<close> it
  is the awaited call of the handler on \<open>x\<close>; where the payload is a promise that is
  rejected or never settles, it is rejected or never settles in the same way, in the world
  the payload left, and no handler has run.
\<close>

lemma promise_then_settles:
  "promise_then p f s =
     (case p s of
        (Fulfilled x, s1) \<Rightarrow> awaited (f x s1)
      | (Rejected x, s1) \<Rightarrow> (Rejected x, s1)
      | (Unsettled, s1) \<Rightarrow> (Unsettled, s1))"
proof (cases "p s")
  case (Pair st s1)
  then show ?thesis
    by (cases st) (simp_all add: promise_then_fulfilled, simp_all add: promise_then_def)
qed

lemma awaited_ok_match_settles:
  "awaited (ok_match v f s) =
     (case await v s of
        (Fulfilled x, s1) \<Rightarrow> awaited (f x s1)
      | (Rejected x, s1) \<Rightarrow> (Rejected x, s1)
      | (Unsettled, s1) \<Rightarrow> (Unsettled, s1))"
proof (cases "instanceof_Promise v")
  case True
  then obtain p where v: "v = JPromise p" by (cases v) simp_all
  show ?thesis by (simp add: v ok_match_pending promise_then_settles)
next
  case False
  then show ?thesis by (simp add: ok_match_plain await_plain)
qed

lemma awaited_err_match_settles:
  "awaited (err_match e f g s) =
     (case await e s of
        (Fulfilled x, s1) \<Rightarrow> awaited (g x s1)
      | (Rejected x, s1) \<Rightarrow> (Rejected x, s1)
      | (Unsettled, s1) \<Rightarrow> (Unsettled, s1))"
proof (cases "instanceof_Promise e")
  case True
  then obtain p where e: "e = JPromise p" by (cases e) simp_all
  show ?thesis by (simp add: e err_match_pending promise_then_settles)
next
  case False
  then show ?thesis by (simp add: err_match_plain await_plain)
qed

text \<open>
  C1, as stated, fails: it is not on every instance that exactly one handler is invoked.
  \<^verbatim>\<open>match\<close> attaches a callback for the fulfilment of a promise payload only, so on
  \<^verbatim>\<open>ok(Promise.reject("no"))\<close>, on \<^verbatim>\<open>err(Promise.reject("no"))\<close> and on
  \<^verbatim>\<open>ok(new Promise(() => {}))\<close>, with both handlers recorded, the awaited \<^verbatim>\<open>match\<close> is
  rejected with \<^verbatim>\<open>"no"\<close>, or never settles, and the record of calls is still empty and
  the counter of the handlers still zero: neither handler was invoked.
\<close>

theorem match_unfulfilled_payload_counterexample:
  "awaited (match (ok (rejecting (JStr ''no'')) None)
       (probe OnOk counting) (probe OnErr counting) ([], 0::nat))
     = (Rejected (JStr ''no''), [], 0) \<and>
   awaited (match (err (rejecting (JStr ''no'')) None)
       (probe OnOk counting) (probe OnErr counting) ([], 0::nat))
     = (Rejected (JStr ''no''), [], 0) \<and>
   awaited (match (ok never_settling None)
       (probe OnOk counting) (probe OnErr counting) ([], 0::nat))
     = (Unsettled, [], 0)"
  by (simp add: ok_def err_def ok_match_def err_match_def promise_then_def rejecting_def
      never_settling_def)

text \<open>
  C1, amended. On every payload, \<^verbatim>\<open>ok(v).match(f, g)\<close> never invokes \<open>g\<close>: it is the same
  for every \<open>g\<close>; and \<^verbatim>\<open>err(e).match(f, g)\<close> never invokes \<open>f\<close>. Awaited,
  \<^verbatim>\<open>ok(v).match(f, g)\<close> is: where the payload resolves to \<open>x\<close> (it is \<open>x\<close> and no promise, or
  a promise fulfilled with \<open>x\<close>), one call \<open>f x\<close>, awaited, in the world the payload resolved
  in, so that its result and every effect are those of that one call; where the payload
  is a promise that is rejected or never settles, rejected with the same reason or never
  settled, in the world the payload left, so that neither handler is invoked. Likewise
  \<^verbatim>\<open>err(e).match(f, g)\<close> with one call of \<open>g\<close>. With both handlers recorded and a payload
  that is no promise, \<^verbatim>\<open>match\<close> returns what the handler of the variant returns on the
  payload, and the record of calls grows by exactly that handler: one call, and none of
  the other handler.
\<close>

theorem match_one_handler:
  "match (ok v t) f g = match (ok v t) f g' \<and>
   match (err e t) f g = match (err e t) f' g \<and>
   awaited (match (ok v t) f g s) =
     (case await v s of
        (Fulfilled x, s1) \<Rightarrow> awaited (f x s1)
      | (Rejected x, s1) \<Rightarrow> (Rejected x, s1)
      | (Unsettled, s1) \<Rightarrow> (Unsettled, s1)) \<and>
   awaited (match (err e t) f g s) =
     (case await e s of
        (Fulfilled x, s1) \<Rightarrow> awaited (g x s1)
      | (Rejected x, s1) \<Rightarrow> (Rejected x, s1)
      | (Unsettled, s1) \<Rightarrow> (Unsettled, s1)) \<and>
   (\<not> instanceof_Promise v' \<longrightarrow>
      match (ok v' t) (probe OnOk h) (probe OnErr k) (tr, u)
        = (fst (h v' u), tr @ [OnOk], snd (h v' u))) \<and>
   (\<not> instanceof_Promise e' \<longrightarrow>
      match (err e' t) (probe OnOk h) (probe OnErr k) (tr, u)
        = (fst (k e' u), tr @ [OnErr], snd (k e' u)))"
proof -
  have never_g: "match (ok v t) f g = match (ok v t) f g'"
    by (simp add: ok_def)
  have never_f: "match (err e t) f g = match (err e t) f' g"
    by (rule ext) (simp add: err_def err_match_def)
  have on_ok: "awaited (match (ok v t) f g s) =
     (case await v s of
        (Fulfilled x, s1) \<Rightarrow> awaited (f x s1)
      | (Rejected x, s1) \<Rightarrow> (Rejected x, s1)
      | (Unsettled, s1) \<Rightarrow> (Unsettled, s1))"
    by (simp add: ok_def awaited_ok_match_settles)
  have on_err: "awaited (match (err e t) f g s) =
     (case await e s of
        (Fulfilled x, s1) \<Rightarrow> awaited (g x s1)
      | (Rejected x, s1) \<Rightarrow> (Rejected x, s1)
      | (Unsettled, s1) \<Rightarrow> (Unsettled, s1))"
    by (simp add: err_def awaited_err_match_settles)
  have plain_ok: "\<not> instanceof_Promise v' \<longrightarrow>
      match (ok v' t) (probe OnOk h) (probe OnErr k) (tr, u)
        = (fst (h v' u), tr @ [OnOk], snd (h v' u))"
    by (simp add: ok_def ok_match_plain probe_def split: prod.splits)
  have plain_err: "\<not> instanceof_Promise e' \<longrightarrow>
      match (err e' t) (probe OnOk h) (probe OnErr k) (tr, u)
        = (fst (k e' u), tr @ [OnErr], snd (k e' u))"
    by (simp add: err_def err_match_plain probe_def split: prod.splits)
  from never_g never_f on_ok on_err plain_ok plain_err show ?thesis
    by blast
qed

theorem match_one_handler_witness:
  "awaited (match (ok (resolved (JNum 1)) None) counting failing (0::nat)) = (Fulfilled (JNum 1), 1) \<and>
   awaited (match (err (rejecting (JStr ''no'')) None) counting failing (0::nat))
     = (Rejected (JStr ''no''), 0) \<and>
   match (ok (JNum 1) None) (probe OnOk counting) (probe OnErr failing) ([], 0::nat)
     = (Returns (JNum 1), [OnOk], 1) \<and>
   match (err (JStr ''e'') None) (probe OnOk counting) (probe OnErr failing) ([], 0::nat)
     = (Throws (JStr ''e''), [OnErr], 0)"
  using match_one_handler [where v = "resolved (JNum 1)" and s = "0::nat"
      and t = None and f = counting and g = failing and g' = failing and f' = counting
      and e = "rejecting (JStr ''no'')" and v' = "JNum 1" and h = counting and k = failing
      and tr = "[]" and u = "0::nat" and e' = "JStr ''e''"]
  by (simp add: resolved_def rejecting_def counting_def failing_def)

text \<open>
  C5. On a payload that is a promise, \<^verbatim>\<open>match\<close> calls no handler: it leaves the world as
  it is and returns a promise. Awaited where the payload is fulfilled with \<open>x\<close>, that
  promise settles as the awaited call of the handler on \<open>x\<close> does; when the handler returns
  \<open>r\<close>, not a promise, it is fulfilled with \<open>r\<close>. On a payload that is no promise,
  \<^verbatim>\<open>match\<close> is the call of the handler itself: what the handler returns is returned as it
  is, with no promise around it.
\<close>

theorem match_keeps_pending:
  "match (ok (JPromise p) t) f g s = (Returns (JPromise (promise_then p f)), s) \<and>
   match (err (JPromise p) t) f g s = (Returns (JPromise (promise_then p g)), s) \<and>
   (p s = (Fulfilled x, s1) \<longrightarrow>
      await (JPromise (promise_then p f)) s = awaited (f x s1)) \<and>
   (p s = (Fulfilled x, s1) \<longrightarrow> f x s1 = (Returns r, s2) \<longrightarrow> \<not> instanceof_Promise r \<longrightarrow>
      await (JPromise (promise_then p f)) s = (Fulfilled r, s2)) \<and>
   (\<not> instanceof_Promise v \<longrightarrow> match (ok v t) f g s = f v s) \<and>
   (\<not> instanceof_Promise e \<longrightarrow> match (err e t) f g s = g e s)"
  by (simp add: ok_def err_def ok_match_pending err_match_pending promise_then_fulfilled
      ok_match_plain err_match_plain await_plain)

theorem match_keeps_pending_witness:
  "await (JPromise (promise_then (\<lambda>s. (Fulfilled (JNum 1), s)) counting)) (0::nat)
     = (Fulfilled (JNum 1), 1) \<and>
   match (ok (JNum 1) None) counting failing (0::nat) = (Returns (JNum 1), 1) \<and>
   match (err (JStr ''e'') None) counting failing (0::nat) = (Throws (JStr ''e''), 0)"
  using match_keeps_pending [where p = "\<lambda>s. (Fulfilled (JNum 1), s)" and s = "0::nat"
      and x = "JNum 1" and ?s1.0 = 0 and f = counting and r = "JNum 1" and ?s2.0 = 1
      and v = "JNum 1" and e = "JStr ''e''" and t = None and g = failing]
  by (simp add: counting_def failing_def)

subsection \<open>\<^verbatim>\<open>pair\<close>\<close>

text \<open>
  C6. On a payload that is no promise, \<^verbatim>\<open>ok(v).pair()\<close> is the two-element array of \<open>v\<close>
  and undefined, and \<^verbatim>\<open>err(e).pair()\<close> the array of undefined and \<open>e\<close>: the payload is in
  the slot of its variant and the other slot is undefined. On a payload that is a
  promise, \<^verbatim>\<open>pair()\<close> is a promise, and awaited where the payload is fulfilled with \<open>x\<close> it
  is fulfilled with that array of \<open>x\<close>, in the same world.
\<close>

theorem pair_tuple:
  "(\<not> instanceof_Promise v \<longrightarrow> pair (ok v t) = JArray [v, JUndefined]) \<and>
   (\<not> instanceof_Promise e \<longrightarrow> pair (err e t) = JArray [JUndefined, e]) \<and>
   instanceof_Promise (pair (ok (JPromise p) t)) \<and>
   instanceof_Promise (pair (err (JPromise p) t)) \<and>
   (p s = (Fulfilled x, s1) \<longrightarrow>
      await (pair (ok (JPromise p) t)) s = (Fulfilled (JArray [x, JUndefined]), s1)) \<and>
   (p s = (Fulfilled x, s1) \<longrightarrow>
      await (pair (err (JPromise p) t)) s = (Fulfilled (JArray [JUndefined, x]), s1))"
  by (simp add: ok_def err_def ok_pair_plain err_pair_plain ok_pair_pending err_pair_pending
      promise_then_fulfilled)

theorem pair_tuple_witness:
  "pair (ok (JNum 1) None) = JArray [JNum 1, JUndefined :: nat jsv] \<and>
   pair (err (JStr ''e'') None) = JArray [JUndefined, JStr ''e'' :: nat jsv] \<and>
   await (pair (ok (resolved (JNum 1)) None)) (0::nat)
     = (Fulfilled (JArray [JNum 1, JUndefined]), 0) \<and>
   await (pair (err (resolved (JNum 1)) None)) (0::nat)
     = (Fulfilled (JArray [JUndefined, JNum 1]), 0)"
  using pair_tuple [where v = "JNum 1 :: nat jsv" and e = "JStr ''e'' :: nat jsv" and t = None
      and p = "\<lambda>s. (Fulfilled (JNum 1), s)" and s = "0::nat" and x = "JNum 1" and ?s1.0 = 0]
  by (simp add: resolved_def)

section \<open>Properties of \<^verbatim>\<open>tcf\<close>\<close>

lemma tcf_try_returns:
  assumes "tryFn a s = (Returns v, s1)" and "finally_block a s1 = (Returns (), s2)"
  shows "tcf a s = (Returns (ok v (tcf_args.tagOk a)), s2)"
  using assms by (simp add: tcf_def try_block_def)

lemma tcf_try_throws:
  assumes "tryFn a s = (Throws x, s1)" and "catchFn a x s1 = (Returns e, s2)"
    and "finally_block a s2 = (Returns (), s3)"
  shows "tcf a s = (Returns (err e (tcf_args.tagError a)), s3)"
  using assms by (simp add: tcf_def try_block_def catch_block_def)

text \<open>
  A fault of the \<^verbatim>\<open>finally\<close> operation is the fault of \<^verbatim>\<open>tcf\<close>, whatever the other two
  functions did.
\<close>

lemma tcf_finally_throws:
  assumes "tryFn a s = (Returns v, s1)" and "finally_block a s1 = (Throws y, s2)"
  shows "tcf a s = (Throws y, s2)"
  using assms by (simp add: tcf_def try_block_def)

text \<open>
  C2, as stated, fails: \<^verbatim>\<open>try\<close> returns \<^verbatim>\<open>"x"\<close> without raising, the \<^verbatim>\<open>finally\<close>
  operation throws, and \<^verbatim>\<open>tcf\<close> throws that fault instead of returning \<^verbatim>\<open>ok("x")\<close>.
\<close>

theorem tcf_finally_fault_counterexample:
  "tryFn cleanup_fails () = (Returns (JStr ''x''), ()) \<and>
   tcf cleanup_fails () = (Throws (JStr ''cleanup''), ())"
  by (simp add: cleanup_fails_def tcf_def try_block_def finally_block_def returning_def
      throwing_def)

text \<open>
  C2, amended. Let the \<^verbatim>\<open>finally\<close> operation be absent or complete without raising. If
  \<^verbatim>\<open>try\<close> returns \<open>v\<close>, \<^verbatim>\<open>tcf\<close> returns \<^verbatim>\<open>ok(v, tagOk)\<close>. If \<^verbatim>\<open>try\<close> throws \<open>x\<close> and
  \<^verbatim>\<open>catch\<close>, called on \<open>x\<close>, returns \<open>e\<close>, \<^verbatim>\<open>tcf\<close> returns \<^verbatim>\<open>err(e, tagError)\<close>: the
  payload is what the transformer returned, not \<open>x\<close>.
\<close>

theorem tcf_wraps:
  "(tryFn a s = (Returns v, s1) \<longrightarrow> finally_block a s1 = (Returns (), s2) \<longrightarrow>
      tcf a s = (Returns (ok v (tcf_args.tagOk a)), s2)) \<and>
   (tryFn a s = (Throws x, s1) \<longrightarrow> catchFn a x s1 = (Returns e, s2) \<longrightarrow>
      finally_block a s2 = (Returns (), s3) \<longrightarrow>
      tcf a s = (Returns (err e (tcf_args.tagError a)), s3))"
  by (simp add: tcf_try_returns tcf_try_throws)

theorem tcf_wraps_witness:
  "tcf try_returns 0 = (Returns (ok (JStr ''x'') None), 1) \<and>
   tcf try_throws 0
     = (Returns (err (JObject [(''cause'', JError ''CustomError'' ''boom'')]) (Some ''FAILED'')), 1)"
  using tcf_wraps [where a = try_returns and s = 0 and v = "JStr ''x''" and ?s1.0 = 0
      and ?s2.0 = 1]
    tcf_wraps [where a = try_throws and s = 0 and x = "JError ''CustomError'' ''boom''"
      and ?s1.0 = 0 and e = "JObject [(''cause'', JError ''CustomError'' ''boom'')]"
      and ?s2.0 = 0 and ?s3.0 = 1]
  by (simp add: try_returns_def try_throws_def returning_def throwing_def counting_def
      wrap_fault_def finally_block_def)

lemma tcf_recorded_trace:
  "fst (snd (tcf (recorded_tcf f c fin te tk) (tr, u)))
     = tr @ (case fst (f u) of
               Returns v \<Rightarrow> [TryFn, FinallyFn]
             | Throws x \<Rightarrow> [TryFn, CatchFn, FinallyFn])"
  by (simp add: tcf_def try_block_def catch_block_def finally_block_def recorded_tcf_def
      probe_def probe0_def split: prod.splits outcome.splits)

text \<open>
  C3. In a call of \<^verbatim>\<open>tcf\<close> with a \<^verbatim>\<open>finally\<close> operation, whatever the three functions
  return or throw, the calls \<^verbatim>\<open>tcf\<close> makes are \<^verbatim>\<open>try\<close>, then \<^verbatim>\<open>finally\<close>, when \<^verbatim>\<open>try\<close>
  returns, and \<^verbatim>\<open>try\<close>, then \<^verbatim>\<open>catch\<close>, then \<^verbatim>\<open>finally\<close>, when \<^verbatim>\<open>try\<close> throws: the
  \<^verbatim>\<open>finally\<close> operation is called once, last, also when \<^verbatim>\<open>catch\<close> throws.
\<close>

theorem finally_once:
  "fst (snd (tcf (recorded_tcf f c fin te tk) (tr, u)))
     = tr @ (case fst (f u) of
               Returns v \<Rightarrow> [TryFn, FinallyFn]
             | Throws x \<Rightarrow> [TryFn, CatchFn, FinallyFn]) \<and>
   calls FinallyFn (snd (tcf (recorded_tcf f c fin te tk) (tr, u))) = calls FinallyFn (tr, u) + 1"
  by (simp add: tcf_recorded_trace calls_def split: outcome.splits)

section \<open>Properties of \<^verbatim>\<open>result\<close>\<close>

text \<open>
  What \<^verbatim>\<open>result\<close> of \<^verbatim>\<open>return/result.ts\<close> does when the predicate returns: the variant is
  the predicate's answer, the payload is the value, and a tag of the config is passed on
  when it is truthy. The predicate is called once.
\<close>

lemma result_returns:
  assumes "nullish (optional_chain config isError) defaultIsError v s = (Returns b, s1)"
  shows "result v config s =
    (Returns (if b then err v (if truthy (optional_chain config ResultConfig.tagError)
                               then optional_chain config ResultConfig.tagError else None)
              else ok v (if truthy (optional_chain config ResultConfig.tagOk)
                         then optional_chain config ResultConfig.tagOk else None)), s1)"
  using assms by (simp add: result_def processValue_def)

lemma result_default:
  "result v None s = (Returns (if instanceof_Error v then err v None else ok v None), s)"
  by (simp add: result_def processValue_def optional_chain_def nullish_def defaultIsError_def
      truthy_def)

lemma result_predicate_once:
  "fst (snd (result v (Some (recorded_config p te tk)) (tr, u))) = tr @ [IsError]"
  by (simp add: result_def processValue_def optional_chain_def nullish_def recorded_config_def
      probe_def split: prod.splits outcome.splits)

text \<open>
  C4 at the empty tag. \<^verbatim>\<open>result(42, { tagOk: "" })\<close> is \<^verbatim>\<open>ok(42)\<close>, with the tag
  \<^verbatim>\<open>"Ok"\<close>, where \<^verbatim>\<open>tagOk ?? DEFAULT_TAG_OK\<close> is the empty string; and
  \<^verbatim>\<open>result(new Error("x"), { tagError: "" })\<close> is \<^verbatim>\<open>err(new Error("x"))\<close>, with the tag
  \<^verbatim>\<open>"Err"\<close>, where \<^verbatim>\<open>tagError ?? DEFAULT_TAG_ERROR\<close> is the empty string.
\<close>

theorem result_empty_tag_dropped:
  "result (JNum 42) (Some empty_tagOk) () = (Returns (ok (JNum 42) None), ()) \<and>
   tag (ok (JNum 42) None :: unit Result) = ''Ok'' \<and>
   nullish (ResultConfig.tagOk empty_tagOk) DEFAULT_TAG_OK = [] \<and>
   result (JError ''Error'' ''x'') (Some empty_tagError) ()
     = (Returns (err (JError ''Error'' ''x'') None), ()) \<and>
   tag (err (JError ''Error'' ''x'') None :: unit Result) = ''Err'' \<and>
   nullish (ResultConfig.tagError empty_tagError) DEFAULT_TAG_ERROR = []"
  by (simp add: result_def processValue_def optional_chain_def nullish_def defaultIsError_def
      truthy_def empty_tagOk_def empty_tagError_def ok_def err_def DEFAULT_TAG_OK_def
      DEFAULT_TAG_ERROR_def)

text \<open>
  C9. When the predicate of the config throws on the value, \<^verbatim>\<open>result\<close> throws the same
  fault, in the world the predicate left: it returns no instance.
\<close>

theorem result_predicate_fault:
  "ResultConfig.isError c = Some p \<longrightarrow> p v s = (Throws x, s1) \<longrightarrow>
     result v (Some c) s = (Throws x, s1)"
  by (simp add: result_def processValue_def optional_chain_def nullish_def)

theorem result_predicate_fault_witness:
  "result (JNum 42) (Some partial_predicate) () = (Throws (JStr ''not total''), ())"
  using result_predicate_fault [where c = partial_predicate
      and p = "\<lambda>v. throwing (JStr ''not total'')" and v = "JNum 42" and s = "()"
      and x = "JStr ''not total''" and ?s1.0 = "()"]
  by (simp add: partial_predicate_def throwing_def)

subsection \<open>The two definitions of \<^verbatim>\<open>result\<close>\<close>

text \<open>
  C10 at the empty tag. On \<^verbatim>\<open>42\<close> and \<^verbatim>\<open>{ tagOk: "" }\<close> the definition of
  \<^verbatim>\<open>return/result.ts\<close> returns an Ok instance with the tag \<^verbatim>\<open>"Ok"\<close>, and the definition
  of \<^verbatim>\<open>return/tcf.ts\<close> an Ok instance with the empty tag.
\<close>

theorem result_definitions_differ:
  "result (JNum 42) (Some empty_tagOk) () = (Returns (ok (JNum 42) None), ()) \<and>
   result_tcf (JNum 42) (Some empty_tagOk) () = (Returns (ok (JNum 42) (Some [])), ()) \<and>
   tag (ok (JNum 42) None :: unit Result) = ''Ok'' \<and>
   tag (ok (JNum 42) (Some []) :: unit Result) = []"
  by (simp add: result_def result_tcf_def processValue_def optional_chain_def nullish_def
      defaultIsError_def truthy_def empty_tagOk_def ok_def DEFAULT_TAG_OK_def)

text \<open>
  Everywhere else the two definitions agree: for every value, every world and every
  config, absent or with any predicate, whose tags are not the empty string.
\<close>

lemma ok_default_tag: "ok v (Some DEFAULT_TAG_OK) = ok v None"
  by (simp add: ok_def nullish_def)

lemma err_default_tag: "err e (Some DEFAULT_TAG_ERROR) = err e None"
  by (simp add: err_def nullish_def)

lemma result_definitions_agree:
  assumes "optional_chain config ResultConfig.tagError \<noteq> Some []"
    and "optional_chain config ResultConfig.tagOk \<noteq> Some []"
  shows "result v config s = result_tcf v config s"
proof -
  have te: "(if truthy (optional_chain config ResultConfig.tagError)
             then err v (optional_chain config ResultConfig.tagError) else err v None)
      = err v (Some (nullish (optional_chain config ResultConfig.tagError) DEFAULT_TAG_ERROR))"
    using assms(1)
    by (cases "optional_chain config ResultConfig.tagError")
       (simp_all add: truthy_def nullish_def err_default_tag)
  have tk: "(if truthy (optional_chain config ResultConfig.tagOk)
             then ok v (optional_chain config ResultConfig.tagOk) else ok v None)
      = ok v (Some (nullish (optional_chain config ResultConfig.tagOk) DEFAULT_TAG_OK))"
    using assms(2)
    by (cases "optional_chain config ResultConfig.tagOk")
       (simp_all add: truthy_def nullish_def ok_default_tag)
  show ?thesis
    using te tk
    by (simp add: result_def result_tcf_def processValue_def
        split: prod.splits outcome.splits if_splits)
qed

end
